theory Spec2Isabelle
  imports Complex_Main "HOL-Library.Word" "HOL-Library.AList"
begin

section \<open>Python values and documents\<close>

text \<open>
  The values that \<^verbatim>\<open>sherpa/database.py\<close> moves between the controller, the workers and the
  MongoDB collections. A Python \<^verbatim>\<open>dict\<close> is an association list with distinct keys, in
  insertion order. \<open>PNpInt64\<close> and \<open>PNpInt32\<close> are \<^verbatim>\<open>numpy.int64\<close> and
  \<^verbatim>\<open>numpy.int32\<close>; \<open>PObjectId\<close> is the \<^verbatim>\<open>ObjectId\<close> that the driver puts under
  \<^verbatim>\<open>_id\<close>. Floats are carried as reals: the code never computes with them.
\<close>

datatype pyval =
    PNone
  | PInt int
  | PFloat real
  | PStr string
  | PNpInt64 "64 word"
  | PNpInt32 "32 word"
  | PObjectId nat
  | PDict "(string \<times> pyval) list"

type_synonym doc = "(string \<times> pyval) list"

datatype error =
    AttributeError
  | EnvironmentError int
  | FileNotFoundError
  | KeyError
  | InvalidDocument
  | OverflowError
  | AssertionError
  | ValueError
  | StopIteration
  | RuntimeError

text \<open>\<^verbatim>\<open>d.get(k)\<close>: the value, or \<^verbatim>\<open>None\<close> when the key is missing.\<close>

definition dict_get :: "doc \<Rightarrow> string \<Rightarrow> pyval" where
  "dict_get d k = (case map_of d k of None \<Rightarrow> PNone | Some v \<Rightarrow> v)"

text \<open>\<^verbatim>\<open>d.pop(k)\<close>: the value and the dict without the key; \<^verbatim>\<open>KeyError\<close> when missing.\<close>

definition dict_pop :: "doc \<Rightarrow> string \<Rightarrow> error + (pyval \<times> doc)" where
  "dict_pop d k =
     (case map_of d k of
        None \<Rightarrow> Inl KeyError
      | Some v \<Rightarrow> Inr (v, filter (\<lambda>kv. fst kv \<noteq> k) d))"

text \<open>
  Python's \<^verbatim>\<open>==\<close>: numbers of different types compare by value, everything else
  compares with its own kind. (Two dicts are compared as written, key order included; the
  code only ever compares identifiers.)
\<close>

fun num_of :: "pyval \<Rightarrow> real option" where
  "num_of (PInt i) = Some (of_int i)"
| "num_of (PFloat r) = Some r"
| "num_of (PNpInt64 w) = Some (of_int (sint w))"
| "num_of (PNpInt32 w) = Some (of_int (sint w))"
| "num_of PNone = None"
| "num_of (PStr s) = None"
| "num_of (PObjectId n) = None"
| "num_of (PDict d) = None"

definition py_eq :: "pyval \<Rightarrow> pyval \<Rightarrow> bool" where
  "py_eq a b =
     (case (num_of a, num_of b) of
        (Some x, Some y) \<Rightarrow> x = y
      | (None, None) \<Rightarrow> a = b
      | _ \<Rightarrow> False)"

text \<open>\<^verbatim>\<open>x in xs\<close> on a list.\<close>

definition py_in :: "pyval \<Rightarrow> pyval list \<Rightarrow> bool" where
  "py_in x xs = list_ex (py_eq x) xs"

section \<open>The document store\<close>

text \<open>
  What the driver's BSON encoder does with a value: numpy's fixed-width integers are not
  encodable (\<^verbatim>\<open>InvalidDocument\<close>, the exception \<^verbatim>\<open>enqueue_trial\<close> catches), a Python
  \<^verbatim>\<open>int\<close> must fit 8 bytes (\<^verbatim>\<open>OverflowError\<close>), and a dict is encoded item by item, the
  first failure ending the encoding.
\<close>

fun bson_error :: "pyval \<Rightarrow> error option"
  and bson_items_error :: "(string \<times> pyval) list \<Rightarrow> error option" where
  "bson_error PNone = None"
| "bson_error (PInt i) = (if - (2 ^ 63) \<le> i \<and> i < 2 ^ 63 then None else Some OverflowError)"
| "bson_error (PFloat r) = None"
| "bson_error (PStr s) = None"
| "bson_error (PNpInt64 w) = Some InvalidDocument"
| "bson_error (PNpInt32 w) = Some InvalidDocument"
| "bson_error (PObjectId n) = None"
| "bson_error (PDict d) = bson_items_error d"
| "bson_items_error [] = None"
| "bson_items_error (kv # d) =
     (case bson_error (snd kv) of Some e \<Rightarrow> Some e | None \<Rightarrow> bson_items_error d)"

text \<open>
  The world outside the two classes: the three collections of the database
  \<^verbatim>\<open>sherpa\<close> (\<^verbatim>\<open>db.trials\<close>, \<^verbatim>\<open>db.results\<close>, \<^verbatim>\<open>db.stop\<close>), the source of fresh
  \<^verbatim>\<open>ObjectId\<close>s, and what \<^verbatim>\<open>poll()\<close> on the \<^verbatim>\<open>mongod\<close> subprocess reports: \<open>None\<close>
  while it runs, its exit status afterwards.
\<close>

record world =
  trials :: "doc list"
  results :: "doc list"
  stop :: "doc list"
  next_oid :: nat
  returncode :: "int option"

datatype coll = Trials | Results | Stop

fun get_coll :: "coll \<Rightarrow> world \<Rightarrow> doc list" where
  "get_coll Trials w = trials w"
| "get_coll Results w = results w"
| "get_coll Stop w = stop w"

fun put_coll :: "coll \<Rightarrow> doc list \<Rightarrow> world \<Rightarrow> world" where
  "put_coll Trials ds w = w\<lparr>trials := ds\<rparr>"
| "put_coll Results ds w = w\<lparr>results := ds\<rparr>"
| "put_coll Stop ds w = w\<lparr>stop := ds\<rparr>"

text \<open>
  \<^verbatim>\<open>collection.insert_one(document)\<close>: the driver first adds a fresh \<^verbatim>\<open>_id\<close> to the
  caller's dict when it has none, then encodes it; only an encodable document reaches
  the collection, at its end. The caller's dict keeps the \<^verbatim>\<open>_id\<close> either way, so the
  document is returned too.
\<close>

definition insert_one :: "coll \<Rightarrow> doc \<Rightarrow> world \<Rightarrow> (error + unit) \<times> doc \<times> world" where
  "insert_one c d w =
     (let fresh = (map_of d ''_id'' = None);
          d' = (if fresh then d @ [(''_id'', PObjectId (next_oid w))] else d);
          w' = (if fresh then w\<lparr>next_oid := Suc (next_oid w)\<rparr> else w)
      in case bson_items_error d' of
           Some e \<Rightarrow> (Inl e, d', w')
         | None \<Rightarrow> (Inr (), d', put_coll c (get_coll c w' @ [d']) w'))"

section \<open>class Database\<close>

datatype popen = Popen

record database =
  collected_results :: "pyval list"
  mongo_process :: "popen option"
  dir :: string
  port :: nat

record trial =
  ident :: pyval
  parameters :: pyval

text \<open>
  \<^verbatim>\<open>check_db_status\<close>: \<^verbatim>\<open>self.mongo_process\<close> is \<^verbatim>\<open>None\<close> until \<^verbatim>\<open>start\<close> has run, and
  \<^verbatim>\<open>None.poll()\<close> is an \<^verbatim>\<open>AttributeError\<close>. \<^verbatim>\<open>if status:\<close> is Python truthiness:
  \<^verbatim>\<open>None\<close> and \<^verbatim>\<open>0\<close> are both false.
\<close>

definition check_db_status :: "database \<Rightarrow> world \<Rightarrow> error + unit" where
  "check_db_status self w =
     (case mongo_process self of
        None \<Rightarrow> Inl AttributeError
      | Some p \<Rightarrow>
          (case returncode w of
             None \<Rightarrow> Inr ()
           | Some status \<Rightarrow> if status \<noteq> 0 then Inl (EnvironmentError status) else Inr ()))"

text \<open>
  The loop of \<^verbatim>\<open>get_new_results\<close> over \<^verbatim>\<open>self.db.results.find()\<close>. \<^verbatim>\<open>new_results\<close> is
  local, \<^verbatim>\<open>self.collected_results\<close> is mutated in place, so an exception in the middle
  keeps the identifiers appended so far.
\<close>

fun get_new_results_loop ::
  "doc list \<Rightarrow> doc list \<Rightarrow> pyval list \<Rightarrow> (error + doc list) \<times> pyval list" where
  "get_new_results_loop [] new_results collected = (Inr new_results, collected)"
| "get_new_results_loop (entry # entries) new_results collected =
     (case dict_pop entry ''_id'' of
        Inl e \<Rightarrow> (Inl e, collected)
      | Inr (mongo_id, result) \<Rightarrow>
          if \<not> py_in mongo_id collected
          then get_new_results_loop entries (new_results @ [result]) (collected @ [mongo_id])
          else get_new_results_loop entries new_results collected)"

definition get_new_results :: "database \<Rightarrow> world \<Rightarrow> (error + doc list) \<times> database" where
  "get_new_results self w =
     (case check_db_status self w of
        Inl e \<Rightarrow> (Inl e, self)
      | Inr u \<Rightarrow>
          (case get_new_results_loop (results w) [] (collected_results self) of
             (r, collected) \<Rightarrow> (r, self\<lparr>collected_results := collected\<rparr>)))"

text \<open>\<^verbatim>\<open>__init__\<close>: the client is created lazily, so only the call of
  \<^verbatim>\<open>get_new_results\<close> can fail.\<close>

definition Database_init :: "string \<Rightarrow> nat \<Rightarrow> bool \<Rightarrow> world \<Rightarrow> error + database" where
  "Database_init db_dir prt reinstantiated w =
     (let self = \<lparr>collected_results = [], mongo_process = None, dir = db_dir, port = prt\<rparr>
      in if reinstantiated
         then (case get_new_results self w of
                 (Inl e, self') \<Rightarrow> Inl e
               | (Inr rs, self') \<Rightarrow> Inr self')
         else Inr self)"

text \<open>\<^verbatim>\<open>start\<close>: \<open>found\<close> says whether \<^verbatim>\<open>mongod\<close> is on the path.\<close>

definition start :: "database \<Rightarrow> bool \<Rightarrow> world \<Rightarrow> error + database" where
  "start self found w =
     (if \<not> found then Inl FileNotFoundError
      else (let self' = self\<lparr>mongo_process := Some Popen\<rparr>
            in case check_db_status self' w of Inl e \<Rightarrow> Inl e | Inr u \<Rightarrow> Inr self'))"

text \<open>The loop of \<^verbatim>\<open>enqueue_trial\<close>'s handler: \<^verbatim>\<open>int(v)\<close> for a \<^verbatim>\<open>numpy.int64\<close>.\<close>

definition new_params :: "(string \<times> pyval) list \<Rightarrow> (string \<times> pyval) list" where
  "new_params ps =
     map (\<lambda>kv. (fst kv, case snd kv of PNpInt64 v \<Rightarrow> PInt (sint v) | v \<Rightarrow> v)) ps"

definition enqueue_trial :: "database \<Rightarrow> trial \<Rightarrow> world \<Rightarrow> (error + unit) \<times> world" where
  "enqueue_trial self t w =
     (case check_db_status self w of
        Inl e \<Rightarrow> (Inl e, w)
      | Inr u \<Rightarrow>
          (case insert_one Trials [(''trial_id'', ident t), (''parameters'', parameters t)] w of
             (Inr u, d, w') \<Rightarrow> (Inr (), w')
           | (Inl e, d, w') \<Rightarrow>
               if e \<noteq> InvalidDocument then (Inl e, w')
               else (case dict_get d ''parameters'' of
                       PDict ps \<Rightarrow>
                         (case insert_one Trials
                                 (AList.update ''parameters'' (PDict (new_params ps)) d) w' of
                            (r, d', w'') \<Rightarrow> (r, w''))
                     | v \<Rightarrow> (Inl AttributeError, w'))))"

definition add_for_stopping :: "database \<Rightarrow> pyval \<Rightarrow> world \<Rightarrow> (error + unit) \<times> world" where
  "add_for_stopping self trial_id w =
     (case check_db_status self w of
        Inl e \<Rightarrow> (Inl e, w)
      | Inr u \<Rightarrow>
          (case insert_one Stop [(''trial_id'', trial_id)] w of
             (r, d, w') \<Rightarrow> (r, w')))"

section \<open>class Client\<close>

text \<open>\<^verbatim>\<open>self.db.trials.find({'trial_id': trial_id})\<close> with an integer \<^verbatim>\<open>trial_id\<close>.\<close>

definition find_trial_id :: "doc list \<Rightarrow> int \<Rightarrow> doc list" where
  "find_trial_id ds n =
     filter (\<lambda>d. case map_of d ''trial_id'' of None \<Rightarrow> False | Some v \<Rightarrow> py_eq v (PInt n)) ds"

text \<open>
  Lines 163 and 164 of \<^verbatim>\<open>get_trial\<close>: \<^verbatim>\<open>id or os.environ.get('SHERPA_TRIAL_ID')\<close>,
  asserted and then given to \<^verbatim>\<open>int\<close>. The argument \<open>id_arg\<close> (the source's \<^verbatim>\<open>id\<close>) is \<^verbatim>\<open>None\<close> or an integer,
  \<open>env\<close> is the environment variable when set, and \<open>py_int\<close> is the builtin \<^verbatim>\<open>int\<close> on
  strings (\<open>None\<close> where it raises \<^verbatim>\<open>ValueError\<close>). Zero and the empty string are false.
\<close>

definition resolve_trial_id ::
  "(string \<Rightarrow> int option) \<Rightarrow> int option \<Rightarrow> string option \<Rightarrow> error + int" where
  "resolve_trial_id py_int id_arg env =
     (let from_env = (case env of
                        None \<Rightarrow> Inl AssertionError
                      | Some s \<Rightarrow>
                          if s = [] then Inl AssertionError
                          else (case py_int s of None \<Rightarrow> Inl ValueError | Some n \<Rightarrow> Inr n))
      in case id_arg of
           None \<Rightarrow> from_env
         | Some n \<Rightarrow> if n \<noteq> 0 then Inr n else from_env)"

text \<open>
  The \<^verbatim>\<open>for _ in range(5)\<close> loop. \<open>trials_at i\<close> is the trials collection when attempt
  \<open>i\<close> queries it; \<open>t\<close> is the loop's variable \<^verbatim>\<open>t\<close>, and the two counters record the
  queries made and the time slept. \<^verbatim>\<open>next(g)\<close> on a generator with no entry raises
  \<^verbatim>\<open>StopIteration\<close>; a dict is true when it is not empty.
\<close>

fun get_trial_loop ::
  "(nat \<Rightarrow> doc list) \<Rightarrow> int \<Rightarrow> nat list \<Rightarrow> doc \<Rightarrow> nat \<Rightarrow> nat \<Rightarrow> (error + doc) \<times> nat \<times> nat" where
  "get_trial_loop trials_at trial_id [] t queries slept = (Inr t, queries, slept)"
| "get_trial_loop trials_at trial_id (i # is) t queries slept =
     (case find_trial_id (trials_at i) trial_id of
        [] \<Rightarrow> (Inl StopIteration, Suc queries, slept)
      | t' # g \<Rightarrow>
          if t' \<noteq> [] then (Inr t', Suc queries, slept)
          else get_trial_loop trials_at trial_id is t' (Suc queries) (slept + 10))"

text \<open>Lines 165 to 173 of \<^verbatim>\<open>get_trial\<close>: the loop, then the test of \<^verbatim>\<open>t\<close>.\<close>

definition lookup_trial :: "(nat \<Rightarrow> doc list) \<Rightarrow> int \<Rightarrow> (error + trial) \<times> nat \<times> nat" where
  "lookup_trial trials_at trial_id =
     (case get_trial_loop trials_at trial_id [0..<5] [] 0 0 of
        (Inl e, queries, slept) \<Rightarrow> (Inl e, queries, slept)
      | (Inr t, queries, slept) \<Rightarrow>
          if t = [] then (Inl RuntimeError, queries, slept)
          else (Inr \<lparr>ident = dict_get t ''trial_id'',
                     parameters = dict_get t ''parameters''\<rparr>, queries, slept))"

definition get_trial ::
  "(string \<Rightarrow> int option) \<Rightarrow> int option \<Rightarrow> string option \<Rightarrow> (nat \<Rightarrow> doc list)
     \<Rightarrow> (error + trial) \<times> nat \<times> nat" where
  "get_trial py_int id_arg env trials_at =
     (case resolve_trial_id py_int id_arg env of
        Inl e \<Rightarrow> (Inl e, 0, 0)
      | Inr trial_id \<Rightarrow> lookup_trial trials_at trial_id)"

text \<open>The scan of \<^verbatim>\<open>self.db.stop.find()\<close> at the end of \<^verbatim>\<open>send_metrics\<close>.\<close>

fun stop_scan :: "doc list \<Rightarrow> pyval \<Rightarrow> error + unit" where
  "stop_scan [] trial_id = Inr ()"
| "stop_scan (entry # entries) trial_id =
     (if py_eq (dict_get entry ''trial_id'') trial_id then Inl StopIteration
      else stop_scan entries trial_id)"

definition send_metrics ::
  "trial \<Rightarrow> pyval \<Rightarrow> pyval \<Rightarrow> pyval \<Rightarrow> world \<Rightarrow> (error + unit) \<times> world" where
  "send_metrics t iteration objective context w =
     (case insert_one Results
             [(''parameters'', parameters t), (''trial_id'', ident t),
              (''objective'', objective), (''iteration'', iteration),
              (''context'', context)] w of
        (Inl e, d, w') \<Rightarrow> (Inl e, w')
      | (Inr u, d, w') \<Rightarrow> (stop_scan (stop w') (ident t), w'))"

section \<open>Sessions and example states\<close>

text \<open>
  The loop appends a record to \<^verbatim>\<open>new_results\<close> and its identifier to
  \<^verbatim>\<open>self.collected_results\<close> in the same step, and the records it returns no longer carry
  the identifier. So the identifiers of the records a call returns are read off the state:
  those the call appended, none when the call raised.
\<close>

definition returned_ids :: "database \<Rightarrow> world \<Rightarrow> pyval list" where
  "returned_ids self w =
     (case get_new_results self w of
        (Inl e, self') \<Rightarrow> []
      | (Inr rs, self') \<Rightarrow> drop (length (collected_results self)) (collected_results self'))"

text \<open>
  A controller's lifetime: one \<^verbatim>\<open>Database\<close> object polled again and again, the world
  being whatever the workers and the process have made of it at each call.
\<close>

fun session_ids :: "database \<Rightarrow> world list \<Rightarrow> pyval list list" where
  "session_ids self [] = []"
| "session_ids self (w # ws) =
     returned_ids self w # session_ids (snd (get_new_results self w)) ws"

definition example_db :: database where
  "example_db =
     \<lparr>collected_results = [], mongo_process = Some Popen, dir = ''db'', port = 27010\<rparr>"

definition example_world :: world where
  "example_world = \<lparr>trials = [], results = [], stop = [], next_oid = 0, returncode = None\<rparr>"

definition example_trial :: trial where
  "example_trial = \<lparr>ident = PInt 1, parameters = PDict [(''lr'', PFloat 0.1)]\<rparr>"

definition example_world_1 :: world where
  "example_world_1 =
     snd (send_metrics example_trial (PInt 1) (PFloat 0.5) (PDict []) example_world)"

definition example_world_2 :: world where
  "example_world_2 =
     snd (send_metrics example_trial (PInt 1) (PFloat 0.4) (PDict []) example_world_1)"

section \<open>Values, documents and the encoder\<close>

lemma py_eq_refl: "py_eq x x"
  by (cases x) (simp_all add: py_eq_def)

lemma py_in_member: "x \<in> set xs \<Longrightarrow> py_in x xs"
  using py_eq_refl by (auto simp: py_in_def list_ex_iff)

lemma dict_pop_Inr:
  "dict_pop e k = Inr (v, r) \<Longrightarrow>
     v = dict_get e k \<and> r = filter (\<lambda>kv. fst kv \<noteq> k) e \<and> map_of e k \<noteq> None"
  by (auto simp: dict_pop_def dict_get_def split: option.splits)

lemma map_of_filter_key:
  "map_of (filter (\<lambda>kv. fst kv \<noteq> k0) d) k = (if k = k0 then None else map_of d k)"
  by (induction d) auto

lemma bson_error_kinds:
  "bson_error v = Some e \<Longrightarrow> e = InvalidDocument \<or> e = OverflowError"
  and bson_items_error_kinds:
  "bson_items_error d = Some e \<Longrightarrow> e = InvalidDocument \<or> e = OverflowError"
  by (induction v and d rule: bson_error_bson_items_error.induct)
     (auto split: if_splits option.splits)

lemma insert_one_cases:
  "insert_one c d w = (r, d', w') \<Longrightarrow>
     (r = Inr () \<and> get_coll c w' = get_coll c w @ [d']) \<or>
     ((r = Inl InvalidDocument \<or> r = Inl OverflowError) \<and> get_coll c w' = get_coll c w)"
  by (cases c)
     (auto simp: insert_one_def Let_def split: option.splits if_splits
           dest: bson_items_error_kinds)

section \<open>The liveness check\<close>

lemma check_db_status_ok_iff:
  "check_db_status self w = Inr () \<longleftrightarrow>
     mongo_process self \<noteq> None \<and> (returncode w = None \<or> returncode w = Some 0)"
  by (auto simp: check_db_status_def split: option.splits)

text \<open>
  C4. \<^verbatim>\<open>check_db_status\<close> is meant to fail exactly when the supervised process has
  terminated. At exit status 0 the process has terminated and the check returns normally:
  \<^verbatim>\<open>if status:\<close> takes 0 for "still running".
\<close>

theorem check_db_status_exit_zero:
  "check_db_status
     \<lparr>collected_results = [], mongo_process = Some Popen, dir = ''db'', port = 27010\<rparr>
     \<lparr>trials = [], results = [], stop = [], next_oid = 0, returncode = Some 0\<rparr> = Inr ()"
  by (simp add: check_db_status_def)

text \<open>
  C8. \<^verbatim>\<open>enqueue_trial\<close>, \<^verbatim>\<open>get_new_results\<close> and \<^verbatim>\<open>add_for_stopping\<close> check the
  process first. When the check fails, its error is the outcome of the call, no collection
  has changed and \<^verbatim>\<open>collected_results\<close> is what it was.
\<close>

theorem liveness_failure_atomic:
  "check_db_status self w = Inl e \<Longrightarrow>
     get_new_results self w = (Inl e, self) \<and>
     enqueue_trial self t w = (Inl e, w) \<and>
     add_for_stopping self trial_id w = (Inl e, w)"
  by (simp add: get_new_results_def enqueue_trial_def add_for_stopping_def)

theorem liveness_failure_atomic_witness:
  "check_db_status example_db (example_world_1\<lparr>returncode := Some 1\<rparr>) = Inl (EnvironmentError 1) \<and>
   get_new_results example_db (example_world_1\<lparr>returncode := Some 1\<rparr>) =
     (Inl (EnvironmentError 1), example_db) \<and>
   enqueue_trial example_db example_trial (example_world_1\<lparr>returncode := Some 1\<rparr>) =
     (Inl (EnvironmentError 1), example_world_1\<lparr>returncode := Some 1\<rparr>) \<and>
   add_for_stopping example_db (PInt 1) (example_world_1\<lparr>returncode := Some 1\<rparr>) =
     (Inl (EnvironmentError 1), example_world_1\<lparr>returncode := Some 1\<rparr>)"
proof -
  have h: "check_db_status example_db (example_world_1\<lparr>returncode := Some 1\<rparr>) =
      Inl (EnvironmentError 1)"
    by (simp add: check_db_status_def example_db_def)
  from h liveness_failure_atomic [OF h, of example_trial "PInt 1"] show ?thesis by simp
qed

text \<open>
  C6. \<^verbatim>\<open>Database(db_dir, port, reinstantiated=True)\<close> is meant to drain the results that
  are already there. It calls \<^verbatim>\<open>get_new_results\<close> while \<^verbatim>\<open>self.mongo_process\<close> is still
  \<^verbatim>\<open>None\<close>, so the liveness check raises \<^verbatim>\<open>AttributeError\<close> and no object is
  constructed, whatever the store holds.
\<close>

theorem Database_init_reinstantiated_fails:
  "Database_init db_dir prt True w = Inl AttributeError"
  by (simp add: Database_init_def get_new_results_def check_db_status_def)

section \<open>Collecting results\<close>

lemma loop_collected:
  "get_new_results_loop es nr col = (r, col') \<Longrightarrow>
     \<exists>new. col' = col @ new \<and> distinct new \<and> (\<forall>x\<in>set new. \<not> py_in x col)"
proof (induction es nr col rule: get_new_results_loop.induct)
  case (1 nr col)
  then show ?case by simp
next
  case (2 entry entries nr col)
  show ?case
  proof (cases "dict_pop entry ''_id''")
    case (Inl e)
    with 2(3) show ?thesis by simp
  next
    case (Inr p)
    obtain mongo_id result where p: "p = (mongo_id, result)" by (cases p)
    show ?thesis
    proof (cases "py_in mongo_id col")
      case True
      with 2(2)[OF Inr p[symmetric]] 2(3) Inr p show ?thesis by simp
    next
      case False
      with 2(3) Inr p
      have "get_new_results_loop entries (nr @ [result]) (col @ [mongo_id]) = (r, col')"
        by simp
      from 2(1)[OF Inr p[symmetric] False this]
      obtain new where new: "col' = (col @ [mongo_id]) @ new" "distinct new"
        "\<forall>x\<in>set new. \<not> py_in x (col @ [mongo_id])" by blast
      have "mongo_id \<notin> set new"
      proof
        assume "mongo_id \<in> set new"
        with new(3) have "\<not> py_in mongo_id (col @ [mongo_id])" by blast
        then show False by (simp add: py_in_member)
      qed
      moreover have "\<forall>x\<in>set new. \<not> py_in x col"
        using new(3) by (auto simp: py_in_def)
      ultimately have "col' = col @ (mongo_id # new) \<and> distinct (mongo_id # new) \<and>
          (\<forall>x\<in>set (mongo_id # new). \<not> py_in x col)"
        using new False by simp
      then show ?thesis by blast
    qed
  qed
qed

lemma loop_records:
  "get_new_results_loop es nr col = (Inr rs, col') \<Longrightarrow>
     \<exists>sel. set sel \<subseteq> set es \<and>
           rs = nr @ map (\<lambda>e. filter (\<lambda>kv. fst kv \<noteq> ''_id'') e) sel \<and>
           col' = col @ map (\<lambda>e. dict_get e ''_id'') sel"
proof (induction es nr col rule: get_new_results_loop.induct)
  case (1 nr col)
  then show ?case by simp
next
  case (2 entry entries nr col)
  show ?case
  proof (cases "dict_pop entry ''_id''")
    case (Inl e)
    with 2(3) show ?thesis by simp
  next
    case (Inr p)
    obtain mongo_id result where p: "p = (mongo_id, result)" by (cases p)
    note pop = dict_pop_Inr[OF Inr[unfolded p]]
    show ?thesis
    proof (cases "py_in mongo_id col")
      case True
      with 2(3) Inr p have "get_new_results_loop entries nr col = (Inr rs, col')" by simp
      from 2(2)[OF Inr p[symmetric] _ this] True
      obtain sel where "set sel \<subseteq> set entries"
        "rs = nr @ map (\<lambda>e. filter (\<lambda>kv. fst kv \<noteq> ''_id'') e) sel"
        "col' = col @ map (\<lambda>e. dict_get e ''_id'') sel" by auto
      then show ?thesis by (intro exI[of _ sel]) auto
    next
      case False
      with 2(3) Inr p
      have "get_new_results_loop entries (nr @ [result]) (col @ [mongo_id]) = (Inr rs, col')"
        by simp
      from 2(1)[OF Inr p[symmetric] False this]
      obtain sel where sel: "set sel \<subseteq> set entries"
        "rs = (nr @ [result]) @ map (\<lambda>e. filter (\<lambda>kv. fst kv \<noteq> ''_id'') e) sel"
        "col' = (col @ [mongo_id]) @ map (\<lambda>e. dict_get e ''_id'') sel" by auto
      show ?thesis
        using sel pop by (intro exI[of _ "entry # sel"]) auto
    qed
  qed
qed

lemma get_new_results_collected:
  "get_new_results self w = (r, self') \<Longrightarrow>
     \<exists>new. collected_results self' = collected_results self @ new \<and> distinct new \<and>
           (\<forall>x\<in>set new. \<not> py_in x (collected_results self))"
proof (cases "check_db_status self w")
  case (Inl e)
  assume "get_new_results self w = (r, self')"
  with Inl show ?thesis by (auto simp: get_new_results_def)
next
  case (Inr u)
  assume a: "get_new_results self w = (r, self')"
  obtain r0 col where l: "get_new_results_loop (results w) [] (collected_results self) = (r0, col)"
    by (cases "get_new_results_loop (results w) [] (collected_results self)")
  from a Inr l have "collected_results self' = col" by (auto simp: get_new_results_def)
  with loop_collected[OF l] show ?thesis by simp
qed

lemma returned_ids_fresh:
  "distinct (returned_ids self w) \<and>
   (\<forall>x\<in>set (returned_ids self w). \<not> py_in x (collected_results self))"
proof -
  obtain r self' where g: "get_new_results self w = (r, self')"
    by (cases "get_new_results self w")
  from get_new_results_collected[OF g] obtain new where
    "collected_results self' = collected_results self @ new" "distinct new"
    "\<forall>x\<in>set new. \<not> py_in x (collected_results self)" by blast
  with g show ?thesis by (cases r) (simp_all add: returned_ids_def)
qed

lemma returned_ids_collected:
  "set (returned_ids self w) \<subseteq> set (collected_results (snd (get_new_results self w)))"
proof (cases "get_new_results self w")
  case (Pair r self')
  then show ?thesis
    by (cases r) (auto simp: returned_ids_def dest: in_set_dropD)
qed

lemma collected_mono:
  "set (collected_results self) \<subseteq> set (collected_results (snd (get_new_results self w)))"
proof -
  obtain r self' where g: "get_new_results self w = (r, self')"
    by (cases "get_new_results self w")
  from get_new_results_collected[OF g] g show ?thesis by auto
qed

lemma session_ids_unseen:
  "k < length ws \<Longrightarrow> x \<in> set (session_ids self ws ! k) \<Longrightarrow> x \<notin> set (collected_results self)"
proof (induction ws arbitrary: self k)
  case Nil
  then show ?case by simp
next
  case (Cons w ws)
  show ?case
  proof (cases k)
    case 0
    with Cons.prems have "x \<in> set (returned_ids self w)" by simp
    with returned_ids_fresh[of self w] have "\<not> py_in x (collected_results self)" by blast
    then show ?thesis using py_in_member by blast
  next
    case (Suc k')
    with Cons.prems have "k' < length ws"
      "x \<in> set (session_ids (snd (get_new_results self w)) ws ! k')"
      by simp_all
    from Cons.IH[OF this] collected_mono[of self w] show ?thesis by blast
  qed
qed

lemma session_disjoint:
  "i < j \<Longrightarrow> j < length ws \<Longrightarrow>
     set (session_ids self ws ! i) \<inter> set (session_ids self ws ! j) = {}"
proof (induction ws arbitrary: self i j)
  case Nil
  then show ?case by simp
next
  case (Cons w ws)
  from Cons.prems obtain j' where j: "j = Suc j'" "j' < length ws" by (cases j) auto
  show ?case
  proof (cases i)
    case 0
    have "x \<notin> set (session_ids (snd (get_new_results self w)) ws ! j')"
      if "x \<in> set (returned_ids self w)" for x
      using session_ids_unseen[OF j(2), of x "snd (get_new_results self w)"]
        returned_ids_collected[of self w] that
      by blast
    with 0 j show ?thesis by auto
  next
    case (Suc i')
    with Cons.prems j have "i' < j'" by simp
    from Cons.IH[OF this j(2)] Suc j show ?thesis by simp
  qed
qed

lemma get_new_results_records:
  assumes "get_new_results self w = (Inr rs, self')"
  shows "collected_results self' = collected_results self @ returned_ids self w \<and>
         (\<exists>sel. set sel \<subseteq> set (results w) \<and>
            rs = map (\<lambda>e. filter (\<lambda>kv. fst kv \<noteq> ''_id'') e) sel \<and>
            returned_ids self w = map (\<lambda>e. dict_get e ''_id'') sel)"
proof -
  from assms obtain u where c: "check_db_status self w = Inr u"
    by (cases "check_db_status self w") (auto simp: get_new_results_def)
  obtain r0 col where l: "get_new_results_loop (results w) [] (collected_results self) = (r0, col)"
    by (cases "get_new_results_loop (results w) [] (collected_results self)")
  from assms c l have r0: "r0 = Inr rs" and col: "collected_results self' = col"
    by (auto simp: get_new_results_def)
  from loop_records[OF l[unfolded r0]] obtain sel where sel: "set sel \<subseteq> set (results w)"
    "rs = [] @ map (\<lambda>e. filter (\<lambda>kv. fst kv \<noteq> ''_id'') e) sel"
    "col = collected_results self @ map (\<lambda>e. dict_get e ''_id'') sel" by blast
  have ids: "returned_ids self w = map (\<lambda>e. dict_get e ''_id'') sel"
    using assms col sel(3) by (simp add: returned_ids_def)
  have "collected_results self' = collected_results self @ returned_ids self w"
    using ids col sel(3) by simp
  moreover have "\<exists>sel. set sel \<subseteq> set (results w) \<and>
            rs = map (\<lambda>e. filter (\<lambda>kv. fst kv \<noteq> ''_id'') e) sel \<and>
            returned_ids self w = map (\<lambda>e. dict_get e ''_id'') sel"
    using sel ids by (intro exI[of _ sel]) simp
  ultimately show ?thesis by blast
qed

lemma example_world_1_eq:
  "example_world_1 =
     \<lparr>trials = [],
      results = [[(''parameters'', PDict [(''lr'', PFloat 0.1)]), (''trial_id'', PInt 1),
                  (''objective'', PFloat 0.5), (''iteration'', PInt 1), (''context'', PDict []),
                  (''_id'', PObjectId 0)]],
      stop = [], next_oid = 1, returncode = None\<rparr>"
  by (simp add: example_world_1_def example_world_def example_trial_def send_metrics_def
        insert_one_def Let_def)

lemma example_world_2_eq:
  "example_world_2 =
     \<lparr>trials = [],
      results = [[(''parameters'', PDict [(''lr'', PFloat 0.1)]), (''trial_id'', PInt 1),
                  (''objective'', PFloat 0.5), (''iteration'', PInt 1), (''context'', PDict []),
                  (''_id'', PObjectId 0)],
                 [(''parameters'', PDict [(''lr'', PFloat 0.1)]), (''trial_id'', PInt 1),
                  (''objective'', PFloat 0.4), (''iteration'', PInt 1), (''context'', PDict []),
                  (''_id'', PObjectId 1)]],
      stop = [], next_oid = 2, returncode = None\<rparr>"
  by (simp add: example_world_2_def example_world_1_eq example_trial_def send_metrics_def
        insert_one_def Let_def)

lemma get_new_results_example_1:
  "get_new_results example_db example_world_1 =
     (Inr [[(''parameters'', PDict [(''lr'', PFloat 0.1)]), (''trial_id'', PInt 1),
            (''objective'', PFloat 0.5), (''iteration'', PInt 1), (''context'', PDict [])]],
      example_db\<lparr>collected_results := [PObjectId 0]\<rparr>)"
  by (simp add: get_new_results_def check_db_status_def example_db_def example_world_1_eq
        dict_pop_def py_in_def)

lemma get_new_results_example_2:
  "get_new_results (example_db\<lparr>collected_results := [PObjectId 0]\<rparr>) example_world_2 =
     (Inr [[(''parameters'', PDict [(''lr'', PFloat 0.1)]), (''trial_id'', PInt 1),
            (''objective'', PFloat 0.4), (''iteration'', PInt 1), (''context'', PDict [])]],
      example_db\<lparr>collected_results := [PObjectId 0, PObjectId 1]\<rparr>)"
  by (simp add: get_new_results_def check_db_status_def example_db_def example_world_2_eq
        dict_pop_def py_in_def py_eq_def)

text \<open>
  C1. Over any sequence of \<^verbatim>\<open>get_new_results\<close> calls on one \<^verbatim>\<open>Database\<close> object, with
  any contents of the results collection at each call, two different calls never return
  the record of the same \<^verbatim>\<open>_id\<close>. Within one call the identifiers returned are
  distinct and none was in \<^verbatim>\<open>collected_results\<close> before; they are appended to it, and
  the records returned are the entries of these identifiers, in the same order.
\<close>

theorem get_new_results_at_most_once:
  "(\<forall>i j. i < j \<and> j < length ws \<longrightarrow>
      set (session_ids self ws ! i) \<inter> set (session_ids self ws ! j) = {}) \<and>
   distinct (returned_ids self w) \<and>
   (\<forall>x\<in>set (returned_ids self w). \<not> py_in x (collected_results self)) \<and>
   (\<forall>rs self'. get_new_results self w = (Inr rs, self') \<longrightarrow>
      collected_results self' = collected_results self @ returned_ids self w \<and>
      (\<exists>sel. set sel \<subseteq> set (results w) \<and>
         rs = map (\<lambda>e. filter (\<lambda>kv. fst kv \<noteq> ''_id'') e) sel \<and>
         returned_ids self w = map (\<lambda>e. dict_get e ''_id'') sel))"
proof (intro conjI allI impI)
  fix i j assume "i < j \<and> j < length ws"
  then show "set (session_ids self ws ! i) \<inter> set (session_ids self ws ! j) = {}"
    using session_disjoint by blast
next
  show "distinct (returned_ids self w)" using returned_ids_fresh by blast
next
  show "\<forall>x\<in>set (returned_ids self w). \<not> py_in x (collected_results self)"
    using returned_ids_fresh by blast
next
  fix rs self' assume g: "get_new_results self w = (Inr rs, self')"
  from get_new_results_records[OF g]
  show "collected_results self' = collected_results self @ returned_ids self w" by blast
  from get_new_results_records[OF g]
  show "\<exists>sel. set sel \<subseteq> set (results w) \<and>
         rs = map (\<lambda>e. filter (\<lambda>kv. fst kv \<noteq> ''_id'') e) sel \<and>
         returned_ids self w = map (\<lambda>e. dict_get e ''_id'') sel" by blast
qed


theorem get_new_results_at_most_once_witness:
  "(0::nat) < 1 \<and> 1 < length [example_world_1, example_world_2] \<and>
   session_ids example_db [example_world_1, example_world_2] = [[PObjectId 0], [PObjectId 1]] \<and>
   set (session_ids example_db [example_world_1, example_world_2] ! 0) \<inter>
     set (session_ids example_db [example_world_1, example_world_2] ! 1) = {} \<and>
   PObjectId 0 \<in> set (returned_ids example_db example_world_1) \<and>
   \<not> py_in (PObjectId 0) (collected_results example_db) \<and>
   collected_results (snd (get_new_results example_db example_world_1)) =
     collected_results example_db @ returned_ids example_db example_world_1"
proof -
  have ids: "session_ids example_db [example_world_1, example_world_2] =
      [[PObjectId 0], [PObjectId 1]]"
    by (simp add: returned_ids_def get_new_results_example_1 get_new_results_example_2)
       (simp add: example_db_def)
  have r: "returned_ids example_db example_world_1 = [PObjectId 0]"
    by (simp add: returned_ids_def get_new_results_example_1) (simp add: example_db_def)
  from get_new_results_at_most_once
    [of "[example_world_1, example_world_2]" example_db example_world_1]
  show ?thesis
    using ids r by (simp add: get_new_results_example_1 py_in_def)
qed

text \<open>
  C10. Every record that \<^verbatim>\<open>get_new_results\<close> returns is an entry of the results
  collection with the key \<^verbatim>\<open>_id\<close> removed: it has no \<^verbatim>\<open>_id\<close>, and under every other
  key (\<^verbatim>\<open>trial_id\<close>, \<^verbatim>\<open>parameters\<close>, \<^verbatim>\<open>iteration\<close>, \<^verbatim>\<open>objective\<close>, \<^verbatim>\<open>context\<close>) it holds what
  the entry holds.
\<close>

theorem get_new_results_drops_id:
  assumes "get_new_results self w = (Inr rs, self')"
  shows "\<forall>r\<in>set rs. \<exists>entry\<in>set (results w).
           \<forall>k. map_of r k = (if k = ''_id'' then None else map_of entry k)"
proof
  fix r assume r: "r \<in> set rs"
  from get_new_results_records[OF assms] obtain sel where sel: "set sel \<subseteq> set (results w)"
    "rs = map (\<lambda>e. filter (\<lambda>kv. fst kv \<noteq> ''_id'') e) sel" by blast
  with r obtain e where "e \<in> set sel" "r = filter (\<lambda>kv. fst kv \<noteq> ''_id'') e" by auto
  with sel(1) show "\<exists>entry\<in>set (results w).
      \<forall>k. map_of r k = (if k = ''_id'' then None else map_of entry k)"
    by (intro bexI[of _ e]) (auto simp: map_of_filter_key)
qed

theorem get_new_results_drops_id_witness:
  "get_new_results example_db example_world_1 =
     (Inr [[(''parameters'', PDict [(''lr'', PFloat 0.1)]), (''trial_id'', PInt 1),
            (''objective'', PFloat 0.5), (''iteration'', PInt 1), (''context'', PDict [])]],
      example_db\<lparr>collected_results := [PObjectId 0]\<rparr>) \<and>
   map_of (hd (results example_world_1)) ''_id'' = Some (PObjectId 0) \<and>
   (\<exists>entry\<in>set (results example_world_1).
      \<forall>k. map_of [(''parameters'', PDict [(''lr'', PFloat 0.1)]), (''trial_id'', PInt 1),
                   (''objective'', PFloat 0.5), (''iteration'', PInt 1), (''context'', PDict [])] k =
          (if k = ''_id'' then None else map_of entry k))"
proof -
  have "map_of (hd (results example_world_1)) ''_id'' = Some (PObjectId 0)"
    by (simp add: example_world_1_eq)
  moreover from get_new_results_drops_id [OF get_new_results_example_1]
  have "\<exists>entry\<in>set (results example_world_1).
      \<forall>k. map_of [(''parameters'', PDict [(''lr'', PFloat 0.1)]), (''trial_id'', PInt 1),
                   (''objective'', PFloat 0.5), (''iteration'', PInt 1), (''context'', PDict [])] k =
          (if k = ''_id'' then None else map_of entry k)"
    by simp
  ultimately show ?thesis using get_new_results_example_1 by blast
qed

section \<open>Enqueueing trials\<close>

lemma new_params_nth:
  "i < length ps \<Longrightarrow>
     num_of (snd (new_params ps ! i)) = num_of (snd (ps ! i)) \<and>
     (\<forall>v. snd (ps ! i) = PNpInt64 v \<longrightarrow> snd (new_params ps ! i) = PInt (sint v)) \<and>
     ((\<forall>v. snd (ps ! i) \<noteq> PNpInt64 v) \<longrightarrow> snd (new_params ps ! i) = snd (ps ! i))"
  by (cases "snd (ps ! i)") (simp_all add: new_params_def)

text \<open>
  C5 as stated fails for a value that the store cannot encode and that is not a
  \<^verbatim>\<open>numpy.int64\<close>: a \<^verbatim>\<open>numpy.int32\<close> makes the first insert raise
  \<^verbatim>\<open>InvalidDocument\<close>, the handler leaves it as it is, and the retry raises again.
\<close>

theorem enqueue_trial_int32_not_normalized:
  "fst (insert_one Trials
          [(''trial_id'', PInt 1), (''parameters'', PDict [(''batch_size'', PNpInt32 32)])]
          example_world) = Inl InvalidDocument \<and>
   new_params [(''batch_size'', PNpInt32 32)] = [(''batch_size'', PNpInt32 32)] \<and>
   bson_error (PNpInt32 32) = Some InvalidDocument \<and>
   enqueue_trial example_db
       \<lparr>ident = PInt 1, parameters = PDict [(''batch_size'', PNpInt32 32)]\<rparr> example_world =
     (Inl InvalidDocument, example_world\<lparr>next_oid := 1\<rparr>)"
  by (simp add: Let_def example_db_def example_world_def check_db_status_def insert_one_def
        new_params_def enqueue_trial_def dict_get_def)

text \<open>
  C5, amended. When the first insert of a trial raises \<^verbatim>\<open>InvalidDocument\<close>,
  \<^verbatim>\<open>enqueue_trial\<close> rebuilds the parameters: the keys stay, every value that is a
  \<^verbatim>\<open>numpy.int64\<close> becomes the Python \<^verbatim>\<open>int\<close> of the same value, every other value is
  left as it is, and no value changes as a number. It then inserts the document once more,
  under the \<^verbatim>\<open>_id\<close> it already has: accepted, it is appended to the trials; rejected,
  the error is the outcome of the call and the trials are unchanged.
\<close>

theorem enqueue_trial_retry:
  assumes "check_db_status self w = Inr ()"
    and "fst (insert_one Trials [(''trial_id'', ident t), (''parameters'', parameters t)] w) =
           Inl InvalidDocument"
    and "parameters t = PDict ps"
  shows "map fst (new_params ps) = map fst ps \<and>
     (\<forall>i<length ps.
        num_of (snd (new_params ps ! i)) = num_of (snd (ps ! i)) \<and>
        (\<forall>v. snd (ps ! i) = PNpInt64 v \<longrightarrow> snd (new_params ps ! i) = PInt (sint v)) \<and>
        ((\<forall>v. snd (ps ! i) \<noteq> PNpInt64 v) \<longrightarrow> snd (new_params ps ! i) = snd (ps ! i))) \<and>
     (bson_items_error [(''trial_id'', ident t), (''parameters'', PDict (new_params ps)),
                        (''_id'', PObjectId (next_oid w))] = None \<longrightarrow>
        enqueue_trial self t w =
          (Inr (), w\<lparr>next_oid := Suc (next_oid w),
                     trials := trials w @
                       [[(''trial_id'', ident t), (''parameters'', PDict (new_params ps)),
                         (''_id'', PObjectId (next_oid w))]]\<rparr>)) \<and>
     (\<forall>e. bson_items_error [(''trial_id'', ident t), (''parameters'', PDict (new_params ps)),
                        (''_id'', PObjectId (next_oid w))] = Some e \<longrightarrow>
        enqueue_trial self t w = (Inl e, w\<lparr>next_oid := Suc (next_oid w)\<rparr>))"
proof -
  have 1: "map fst (new_params ps) = map fst ps" by (simp add: new_params_def comp_def)
  have 2: "\<forall>i<length ps.
        num_of (snd (new_params ps ! i)) = num_of (snd (ps ! i)) \<and>
        (\<forall>v. snd (ps ! i) = PNpInt64 v \<longrightarrow> snd (new_params ps ! i) = PInt (sint v)) \<and>
        ((\<forall>v. snd (ps ! i) \<noteq> PNpInt64 v) \<longrightarrow> snd (new_params ps ! i) = snd (ps ! i))"
    using new_params_nth by blast
  have ins: "insert_one Trials [(''trial_id'', ident t), (''parameters'', PDict ps)] w =
      (Inl InvalidDocument,
       [(''trial_id'', ident t), (''parameters'', PDict ps), (''_id'', PObjectId (next_oid w))],
       w\<lparr>next_oid := Suc (next_oid w)\<rparr>)"
    using assms(2,3) by (auto simp: insert_one_def Let_def split: option.splits)
  have 3: "enqueue_trial self t w =
      (Inr (), w\<lparr>next_oid := Suc (next_oid w),
                 trials := trials w @
                   [[(''trial_id'', ident t), (''parameters'', PDict (new_params ps)),
                     (''_id'', PObjectId (next_oid w))]]\<rparr>)"
    if "bson_items_error [(''trial_id'', ident t), (''parameters'', PDict (new_params ps)),
                        (''_id'', PObjectId (next_oid w))] = None"
    using that assms(1,3) ins
    by (simp add: enqueue_trial_def dict_get_def insert_one_def Let_def)
  have 4: "enqueue_trial self t w = (Inl e, w\<lparr>next_oid := Suc (next_oid w)\<rparr>)"
    if "bson_items_error [(''trial_id'', ident t), (''parameters'', PDict (new_params ps)),
                        (''_id'', PObjectId (next_oid w))] = Some e" for e
    using that assms(1,3) ins
    by (simp add: enqueue_trial_def dict_get_def insert_one_def Let_def)
  from 1 2 3 4 show ?thesis by blast
qed

theorem enqueue_trial_retry_witness:
  "check_db_status example_db example_world = Inr () \<and>
   fst (insert_one Trials
          [(''trial_id'', PInt 1),
           (''parameters'', PDict [(''batch_size'', PNpInt64 64), (''lr'', PFloat 0.1)])]
          example_world) = Inl InvalidDocument \<and>
   enqueue_trial example_db
       \<lparr>ident = PInt 1,
          parameters = PDict [(''batch_size'', PNpInt64 64), (''lr'', PFloat 0.1)]\<rparr>
       example_world =
     (Inr (), example_world\<lparr>next_oid := 1,
        trials := [[(''trial_id'', PInt 1),
                    (''parameters'', PDict [(''batch_size'', PInt 64), (''lr'', PFloat 0.1)]),
                    (''_id'', PObjectId 0)]]\<rparr>)"
  using enqueue_trial_retry
    [of example_db example_world
        "\<lparr>ident = PInt 1,
           parameters = PDict [(''batch_size'', PNpInt64 64), (''lr'', PFloat 0.1)]\<rparr>"
        "[(''batch_size'', PNpInt64 64), (''lr'', PFloat 0.1)]"]
  by (simp add: Let_def example_db_def example_world_def check_db_status_def insert_one_def
        new_params_def)

section \<open>Resolving the assigned trial\<close>

lemma find_trial_id_nonempty: "d \<in> set (find_trial_id ds n) \<Longrightarrow> d \<noteq> []"
  by (auto simp: find_trial_id_def)

lemma lookup_trial_none:
  "find_trial_id (trials_at 0) n = [] \<Longrightarrow> lookup_trial trials_at n = (Inl StopIteration, 1, 0)"
  by (simp add: lookup_trial_def upt_rec)

lemma lookup_trial_found:
  "find_trial_id (trials_at 0) n = t # g \<Longrightarrow>
     lookup_trial trials_at n =
       (Inr \<lparr>ident = dict_get t ''trial_id'', parameters = dict_get t ''parameters''\<rparr>, 1, 0)"
  using find_trial_id_nonempty[of t "trials_at 0" n]
  by (simp add: lookup_trial_def upt_rec)

text \<open>
  C2. An identifier with no matching trial request is meant to cost five queries, with a
  sleep of 10 after each, and to end in \<^verbatim>\<open>RuntimeError\<close>. Here the store holds trial
  1 and the worker asks for trial 999: the first \<^verbatim>\<open>next(g)\<close> raises \<^verbatim>\<open>StopIteration\<close>,
  after one query and no sleep.
\<close>

theorem get_trial_unknown_id_one_query:
  "get_trial py_int (Some 999) env
     (\<lambda>i. [[(''trial_id'', PInt 1), (''parameters'', PDict [(''lr'', PFloat 0.1)]),
             (''_id'', PObjectId 0)]]) = (Inl StopIteration, 1, 0)"
  by (simp add: get_trial_def resolve_trial_id_def lookup_trial_def find_trial_id_def
        py_eq_def upt_rec)

text \<open>
  C9. \<^verbatim>\<open>get_trial\<close> looks up the explicit identifier when one is given (a trial
  identifier is a positive integer, and Python takes 0 for "not given"), otherwise the
  integer that the environment variable spells, and when there is neither it fails with
  the \<^verbatim>\<open>AssertionError\<close> of line 163 before any query or sleep.
\<close>

theorem get_trial_identifier_source:
  "(n \<noteq> 0 \<longrightarrow> get_trial py_int (Some n) env trials_at = lookup_trial trials_at n) \<and>
   (s \<noteq> [] \<and> py_int s = Some n \<longrightarrow>
      get_trial py_int None (Some s) trials_at = lookup_trial trials_at n) \<and>
   get_trial py_int None None trials_at = (Inl AssertionError, 0, 0)"
  by (simp add: get_trial_def resolve_trial_id_def)

theorem get_trial_identifier_source_witness:
  "(7::int) \<noteq> 0 \<and> ''7'' \<noteq> [] \<and>
   (\<lambda>s. if s = ''7'' then Some (7::int) else None) ''7'' = Some 7 \<and>
   get_trial (\<lambda>s. if s = ''7'' then Some 7 else None) (Some 7) None
      (\<lambda>i. [[(''trial_id'', PInt 7), (''parameters'', PDict [(''lr'', PFloat 0.1)]),
              (''_id'', PObjectId 0)]])
    = (Inr \<lparr>ident = PInt 7, parameters = PDict [(''lr'', PFloat 0.1)]\<rparr>, 1, 0) \<and>
   get_trial (\<lambda>s. if s = ''7'' then Some 7 else None) None (Some ''7'')
      (\<lambda>i. [[(''trial_id'', PInt 7), (''parameters'', PDict [(''lr'', PFloat 0.1)]),
              (''_id'', PObjectId 0)]])
    = (Inr \<lparr>ident = PInt 7, parameters = PDict [(''lr'', PFloat 0.1)]\<rparr>, 1, 0)"
  using get_trial_identifier_source
    [of 7 "(\<lambda>s. if s = ''7'' then Some 7 else None)" None
        "(\<lambda>i. [[(''trial_id'', PInt 7), (''parameters'', PDict [(''lr'', PFloat 0.1)]),
                 (''_id'', PObjectId 0)]])" "''7''"]
  by (simp add: lookup_trial_def find_trial_id_def py_eq_def dict_get_def upt_rec)

section \<open>Reporting metrics\<close>

lemma stop_scan_iff:
  "stop_scan es tid = Inl StopIteration \<longleftrightarrow>
     (\<exists>e\<in>set es. py_eq (dict_get e ''trial_id'') tid)"
  by (induction es) auto

lemma stop_scan_cases: "stop_scan es tid = Inr () \<or> stop_scan es tid = Inl StopIteration"
  by (induction es) auto

text \<open>
  C3 as stated fails when the store rejects the result record: the insert comes first,
  so a context holding a \<^verbatim>\<open>numpy.int64\<close> ends the call with \<^verbatim>\<open>InvalidDocument\<close>
  before the stop requests are read, although one for this trial is there.
\<close>

theorem send_metrics_rejected_before_scan:
  "add_for_stopping example_db (PInt 1) example_world =
     (Inr (), example_world\<lparr>next_oid := 1,
                stop := [[(''trial_id'', PInt 1), (''_id'', PObjectId 0)]]\<rparr>) \<and>
   (\<exists>e\<in>set (stop (snd (add_for_stopping example_db (PInt 1) example_world))).
      py_eq (dict_get e ''trial_id'') (ident example_trial)) \<and>
   fst (send_metrics example_trial (PInt 1) (PFloat 0.5) (PDict [(''batch'', PNpInt64 3)])
          (snd (add_for_stopping example_db (PInt 1) example_world))) = Inl InvalidDocument"
  by (simp add: Let_def example_trial_def example_db_def example_world_def send_metrics_def
        insert_one_def add_for_stopping_def check_db_status_def dict_get_def py_eq_def)

text \<open>
  C3, amended. A \<^verbatim>\<open>send_metrics\<close> call whose record the store accepts (the call does
  not end in the encoder's \<^verbatim>\<open>InvalidDocument\<close> or \<^verbatim>\<open>OverflowError\<close>) raises
  \<^verbatim>\<open>StopIteration\<close> if and only if some stop request holds the trial's id, and returns
  normally otherwise. So once \<^verbatim>\<open>add_for_stopping\<close> has succeeded for the trial's id, and
  as long as stop requests are only added, every such call raises \<^verbatim>\<open>StopIteration\<close>.
\<close>

theorem send_metrics_cancellation:
  assumes "send_metrics t it obj ctx w = (r, w')"
    and "r \<noteq> Inl InvalidDocument" and "r \<noteq> Inl OverflowError"
  shows "(r = Inl StopIteration \<longleftrightarrow>
            (\<exists>e\<in>set (stop w). py_eq (dict_get e ''trial_id'') (ident t))) \<and>
         (r \<noteq> Inl StopIteration \<longrightarrow> r = Inr ()) \<and>
         (add_for_stopping self (ident t) w_before = (Inr (), w_marked) \<and>
          set (stop w_marked) \<subseteq> set (stop w)
            \<longrightarrow> r = Inl StopIteration)"
proof -
  obtain r0 d w1' where ins:
    "insert_one Results [(''parameters'', parameters t), (''trial_id'', ident t),
              (''objective'', obj), (''iteration'', it), (''context'', ctx)] w = (r0, d, w1')"
    by (metis prod_cases3)
  from insert_one_cases[OF ins] assms ins have r: "r = stop_scan (stop w) (ident t)"
    by (auto simp: send_metrics_def insert_one_def Let_def split: option.splits if_splits)
  have a: "r = Inl StopIteration \<longleftrightarrow>
      (\<exists>e\<in>set (stop w). py_eq (dict_get e ''trial_id'') (ident t))"
    using r stop_scan_iff by simp
  have b: "r \<noteq> Inl StopIteration \<longrightarrow> r = Inr ()"
    using r stop_scan_cases[of "stop w" "ident t"] by auto
  have c: "r = Inl StopIteration"
    if h: "add_for_stopping self (ident t) w_before = (Inr (), w_marked)"
      "set (stop w_marked) \<subseteq> set (stop w)"
  proof -
    from h(1) have "[(''trial_id'', ident t), (''_id'', PObjectId (next_oid w_before))] \<in> set (stop w_marked)"
      by (auto simp: add_for_stopping_def insert_one_def Let_def
               split: sum.splits option.splits)
    with h(2) have "[(''trial_id'', ident t), (''_id'', PObjectId (next_oid w_before))] \<in> set (stop w)"
      by blast
    moreover have
      "py_eq (dict_get [(''trial_id'', ident t), (''_id'', PObjectId (next_oid w_before))] ''trial_id'')
         (ident t)"
      by (simp add: dict_get_def py_eq_refl)
    ultimately show ?thesis using a by blast
  qed
  from a b c show ?thesis by blast
qed

theorem send_metrics_cancellation_witness:
  "add_for_stopping example_db (ident example_trial) example_world =
     (Inr (), snd (add_for_stopping example_db (PInt 1) example_world)) \<and>
   fst (send_metrics example_trial (PInt 1) (PFloat 0.5) (PDict [])
          (snd (add_for_stopping example_db (PInt 1) example_world))) = Inl StopIteration \<and>
   (\<exists>e\<in>set (stop (snd (add_for_stopping example_db (PInt 1) example_world))).
      py_eq (dict_get e ''trial_id'') (ident example_trial)) \<and>
   fst (send_metrics example_trial (PInt 1) (PFloat 0.5) (PDict []) example_world) = Inr () \<and>
   stop example_world = []"
proof -
  have f: "fst (send_metrics example_trial (PInt 1) (PFloat 0.5) (PDict [])
      (snd (add_for_stopping example_db (PInt 1) example_world))) = Inl StopIteration"
    by (simp add: Let_def example_trial_def example_db_def example_world_def send_metrics_def
          insert_one_def add_for_stopping_def check_db_status_def dict_get_def py_eq_def)
  then have s: "send_metrics example_trial (PInt 1) (PFloat 0.5) (PDict [])
      (snd (add_for_stopping example_db (PInt 1) example_world)) =
     (Inl StopIteration,
      snd (send_metrics example_trial (PInt 1) (PFloat 0.5) (PDict [])
            (snd (add_for_stopping example_db (PInt 1) example_world))))"
    by (metis prod.collapse)
  have a: "add_for_stopping example_db (ident example_trial) example_world =
     (Inr (), snd (add_for_stopping example_db (PInt 1) example_world))"
    by (simp add: Let_def example_trial_def example_db_def example_world_def
          insert_one_def add_for_stopping_def check_db_status_def)
  have n: "fst (send_metrics example_trial (PInt 1) (PFloat 0.5) (PDict []) example_world) = Inr ()"
    "stop example_world = []"
    by (simp_all add: Let_def example_trial_def example_world_def send_metrics_def insert_one_def)
  from send_metrics_cancellation
    [where self = example_db and w_before = example_world
       and w_marked = "snd (add_for_stopping example_db (PInt 1) example_world)", OF s]
    a n f
  show ?thesis by simp
qed

text \<open>
  C7 as stated fails when the store rejects the record: with a \<^verbatim>\<open>numpy.int64\<close> in the
  context the call raises \<^verbatim>\<open>InvalidDocument\<close> and the results are what they were.
\<close>

theorem send_metrics_rejected_appends_nothing:
  "send_metrics example_trial (PInt 1) (PFloat 0.5) (PDict [(''batch'', PNpInt64 3)])
       example_world =
     (Inl InvalidDocument, example_world\<lparr>next_oid := 1\<rparr>) \<and>
   results (example_world\<lparr>next_oid := 1\<rparr>) = results example_world"
  by (simp add: Let_def example_trial_def example_world_def send_metrics_def insert_one_def)

text \<open>
  C7, amended. A \<^verbatim>\<open>send_metrics\<close> call that returns normally or raises
  \<^verbatim>\<open>StopIteration\<close> has appended exactly one record to the results, holding the given
  iteration, objective and context and the trial's id and parameters as they were passed;
  nothing is looked up first, and the records already there are untouched. Any other
  outcome is the encoder's \<^verbatim>\<open>InvalidDocument\<close> or \<^verbatim>\<open>OverflowError\<close>, and then the
  results are unchanged.
\<close>

theorem send_metrics_appends_one:
  assumes "send_metrics t it obj ctx w = (r, w')"
  shows "(r = Inr () \<or> r = Inl StopIteration \<longrightarrow>
           (\<exists>record. results w' = results w @ [record] \<and>
              dict_get record ''iteration'' = it \<and> dict_get record ''objective'' = obj \<and>
              dict_get record ''context'' = ctx \<and> dict_get record ''trial_id'' = ident t \<and>
              dict_get record ''parameters'' = parameters t)) \<and>
         (r \<noteq> Inr () \<and> r \<noteq> Inl StopIteration \<longrightarrow>
            results w' = results w \<and> (r = Inl InvalidDocument \<or> r = Inl OverflowError))"
proof -
  let ?d = "[(''parameters'', parameters t), (''trial_id'', ident t),
              (''objective'', obj), (''iteration'', it), (''context'', ctx)]"
  obtain r0 d w1 where ins: "insert_one Results ?d w = (r0, d, w1)"
    by (metis prod_cases3)
  have d: "d = ?d @ [(''_id'', PObjectId (next_oid w))]"
    using ins by (auto simp: insert_one_def Let_def split: option.splits)
  from insert_one_cases[OF ins] show ?thesis
  proof
    assume ok: "r0 = Inr () \<and> get_coll Results w1 = get_coll Results w @ [d]"
    with assms ins have r: "r = stop_scan (stop w1) (ident t)" and w': "w' = w1"
      by (auto simp: send_metrics_def)
    from r stop_scan_cases[of "stop w1" "ident t"]
    have "r = Inr () \<or> r = Inl StopIteration" by simp
    moreover have "results w' = results w @ [d]" using ok w' by simp
    ultimately show ?thesis unfolding d by (auto simp: dict_get_def)
  next
    assume bad: "(r0 = Inl InvalidDocument \<or> r0 = Inl OverflowError) \<and>
        get_coll Results w1 = get_coll Results w"
    with assms ins have "r = r0" "w' = w1" by (auto simp: send_metrics_def)
    with bad show ?thesis by auto
  qed
qed

theorem send_metrics_appends_one_witness:
  "send_metrics example_trial (PInt 1) (PFloat 0.5) (PDict []) example_world =
     (Inr (), example_world_1) \<and>
   send_metrics example_trial (PInt 1) (PFloat 0.4) (PDict []) example_world_1 =
     (Inr (), example_world_2) \<and>
   results example_world = [] \<and> length (results example_world_1) = 1 \<and>
   length (results example_world_2) = 2 \<and>
   (\<exists>record. results example_world_2 = results example_world_1 @ [record] \<and>
      dict_get record ''iteration'' = PInt 1 \<and> dict_get record ''objective'' = PFloat 0.4 \<and>
      dict_get record ''context'' = PDict [] \<and> dict_get record ''trial_id'' = ident example_trial \<and>
      dict_get record ''parameters'' = parameters example_trial)"
proof -
  have 1: "send_metrics example_trial (PInt 1) (PFloat 0.5) (PDict []) example_world =
      (Inr (), example_world_1)"
    unfolding example_world_1_eq
    by (simp add: Let_def example_trial_def example_world_def send_metrics_def insert_one_def)
  have 2: "send_metrics example_trial (PInt 1) (PFloat 0.4) (PDict []) example_world_1 =
      (Inr (), example_world_2)"
    unfolding example_world_2_eq example_world_1_eq
    by (simp add: Let_def example_trial_def send_metrics_def insert_one_def)
  have 3: "results example_world = []" "length (results example_world_1) = 1"
    "length (results example_world_2) = 2"
    by (simp_all add: example_world_def example_world_1_eq example_world_2_eq)
  from send_metrics_appends_one [OF 2] 1 2 3 show ?thesis by simp
qed

end
